theory Spec2Isabelle
  imports Complex_Main "HOL-Library.Word"
begin

section \<open>The pricing engine of backend/src/pricing\_engine.cpp\<close>

subsection \<open>The C++ type double\<close>

text \<open>
  A \<open>double\<close> is modelled as an exact real number or one of the three special values of
  IEEE 754: plus infinity, minus infinity and NaN. Rounding, overflow and underflow of
  finite results are not modelled (a finite result is the exact real), and the sign of a
  zero is not tracked: \<open>Fin 0\<close> stands for \<open>+0.0\<close>, which is what the literal \<open>0.0\<close>
  and the conversion of the integer 0 give. What is modelled is what the arithmetic does
  with the special values: a non-zero number divided by zero is an infinity, \<open>0/0\<close>,
  \<open>inf - inf\<close> and \<open>0 * inf\<close> are NaN, NaN propagates, and every comparison with NaN
  is false. The numbers handed to the engine (prices, quantities, rates, thresholds) are
  finite; infinities and NaN come up as results of its arithmetic.
\<close>

datatype double = Fin real | PInf | NInf | NaN

fun d_neg :: "double \<Rightarrow> double" where
  "d_neg (Fin a) = Fin (- a)"
| "d_neg PInf = NInf"
| "d_neg NInf = PInf"
| "d_neg NaN = NaN"

fun d_add :: "double \<Rightarrow> double \<Rightarrow> double" where
  "d_add (Fin a) (Fin b) = Fin (a + b)"
| "d_add (Fin a) PInf = PInf"
| "d_add (Fin a) NInf = NInf"
| "d_add PInf (Fin b) = PInf"
| "d_add PInf PInf = PInf"
| "d_add PInf NInf = NaN"
| "d_add NInf (Fin b) = NInf"
| "d_add NInf NInf = NInf"
| "d_add NInf PInf = NaN"
| "d_add NaN b = NaN"
| "d_add a NaN = NaN"

definition d_sub :: "double \<Rightarrow> double \<Rightarrow> double" where
  "d_sub a b = d_add a (d_neg b)"

text \<open>The infinity with the sign of a non-zero real, NaN for zero.\<close>

definition inf_of_sign :: "real \<Rightarrow> double" where
  "inf_of_sign a = (if 0 < a then PInf else if a < 0 then NInf else NaN)"

fun d_mul :: "double \<Rightarrow> double \<Rightarrow> double" where
  "d_mul (Fin a) (Fin b) = Fin (a * b)"
| "d_mul (Fin a) PInf = inf_of_sign a"
| "d_mul (Fin a) NInf = inf_of_sign (- a)"
| "d_mul PInf (Fin b) = inf_of_sign b"
| "d_mul NInf (Fin b) = inf_of_sign (- b)"
| "d_mul PInf PInf = PInf"
| "d_mul PInf NInf = NInf"
| "d_mul NInf PInf = NInf"
| "d_mul NInf NInf = PInf"
| "d_mul NaN b = NaN"
| "d_mul a NaN = NaN"

fun d_div :: "double \<Rightarrow> double \<Rightarrow> double" where
  "d_div (Fin a) (Fin b) = (if b = 0 then inf_of_sign a else Fin (a / b))"
| "d_div (Fin a) PInf = Fin 0"
| "d_div (Fin a) NInf = Fin 0"
| "d_div PInf (Fin b) = (if 0 \<le> b then PInf else NInf)"
| "d_div NInf (Fin b) = (if 0 \<le> b then NInf else PInf)"
| "d_div PInf PInf = NaN"
| "d_div PInf NInf = NaN"
| "d_div NInf PInf = NaN"
| "d_div NInf NInf = NaN"
| "d_div NaN b = NaN"
| "d_div a NaN = NaN"

text \<open>The comparisons \<open><\<close> and \<open><=\<close> of C++ on doubles.\<close>

fun d_lt :: "double \<Rightarrow> double \<Rightarrow> bool" where
  "d_lt (Fin a) (Fin b) = (a < b)"
| "d_lt (Fin a) PInf = True"
| "d_lt NInf (Fin b) = True"
| "d_lt NInf PInf = True"
| "d_lt a b = False"

fun d_le :: "double \<Rightarrow> double \<Rightarrow> bool" where
  "d_le (Fin a) (Fin b) = (a \<le> b)"
| "d_le (Fin a) PInf = True"
| "d_le NInf (Fin b) = True"
| "d_le NInf PInf = True"
| "d_le PInf PInf = True"
| "d_le NInf NInf = True"
| "d_le a b = False"

text \<open>
  \<open>std::abs\<close>, and \<open>std::max\<close> and \<open>std::min\<close> as the standard defines them:
  \<open>max(a, b)\<close> is \<open>(a < b) ? b : a\<close> and \<open>min(a, b)\<close> is \<open>(b < a) ? b : a\<close>.
\<close>

fun d_abs :: "double \<Rightarrow> double" where
  "d_abs (Fin a) = Fin \<bar>a\<bar>"
| "d_abs PInf = PInf"
| "d_abs NInf = PInf"
| "d_abs NaN = NaN"

definition d_max :: "double \<Rightarrow> double \<Rightarrow> double" where
  "d_max a b = (if d_lt a b then b else a)"

definition d_min :: "double \<Rightarrow> double \<Rightarrow> double" where
  "d_min a b = (if d_lt b a then b else a)"

text \<open>The functions of \<open><cmath>\<close> the engine calls, with their values at the special values.\<close>

fun d_exp :: "double \<Rightarrow> double" where
  "d_exp (Fin a) = Fin (exp a)"
| "d_exp PInf = PInf"
| "d_exp NInf = Fin 0"
| "d_exp NaN = NaN"

fun d_log :: "double \<Rightarrow> double" where
  "d_log (Fin a) = (if 0 < a then Fin (ln a) else if a = 0 then NInf else NaN)"
| "d_log PInf = PInf"
| "d_log NInf = NaN"
| "d_log NaN = NaN"

fun d_sqrt :: "double \<Rightarrow> double" where
  "d_sqrt (Fin a) = (if 0 \<le> a then Fin (sqrt a) else NaN)"
| "d_sqrt PInf = PInf"
| "d_sqrt NInf = NaN"
| "d_sqrt NaN = NaN"

text \<open>
  The error function, \<open>erf x = 2/sqrt pi * integral from 0 to x of exp (- t^2)\<close>, by its
  Maclaurin series, which converges for every real \<open>x\<close>.
\<close>

definition erf_term :: "real \<Rightarrow> nat \<Rightarrow> real" where
  "erf_term x n = (- 1) ^ n * x ^ (2 * n + 1) / (fact n * real (2 * n + 1))"

definition erf :: "real \<Rightarrow> real" where
  "erf x = 2 / sqrt pi * (\<Sum>n. erf_term x n)"

fun d_erf :: "double \<Rightarrow> double" where
  "d_erf (Fin a) = Fin (erf a)"
| "d_erf PInf = Fin 1"
| "d_erf NInf = Fin (- 1)"
| "d_erf NaN = NaN"

text \<open>The conversion of a \<open>uint64_t\<close> to \<open>double\<close>.\<close>

type_synonym uint64 = "64 word"

definition d_of_u64 :: "uint64 \<Rightarrow> double" where
  "d_of_u64 w = Fin (real (unat w))"

subsection \<open>normalCDF, normalPDF, blackScholes\<close>

definition normalCDF :: "double \<Rightarrow> double" where
  "normalCDF x = d_mul (Fin 0.5) (d_add (Fin 1) (d_erf (d_div x (d_sqrt (Fin 2)))))"

definition normalPDF :: "double \<Rightarrow> double" where
  "normalPDF x =
     d_mul (d_div (Fin 1) (d_sqrt (d_mul (Fin 2) (Fin pi))))
           (d_exp (d_mul (d_mul (Fin (- 0.5)) x) x))"

text \<open>
  The expression for \<open>d1\<close> is written out in \<open>blackScholes\<close> and in each of the four
  functions for the Greeks; it is the same text in all five places.
\<close>

definition bs_d1 :: "double \<Rightarrow> double \<Rightarrow> double \<Rightarrow> double \<Rightarrow> double \<Rightarrow> double" where
  "bs_d1 spot strike time_to_expiry risk_free_rate volatility =
     d_div (d_add (d_log (d_div spot strike))
                  (d_mul (d_add risk_free_rate (d_mul (d_mul (Fin 0.5) volatility) volatility))
                         time_to_expiry))
           (d_mul volatility (d_sqrt time_to_expiry))"

definition blackScholes :: "double \<Rightarrow> double \<Rightarrow> double \<Rightarrow> double \<Rightarrow> double \<Rightarrow> bool \<Rightarrow> double" where
  "blackScholes spot strike time_to_expiry risk_free_rate volatility is_call =
     (if d_le time_to_expiry (Fin 0) then
        (if is_call then d_max (Fin 0) (d_sub spot strike)
         else d_max (Fin 0) (d_sub strike spot))
      else
        let d1 = bs_d1 spot strike time_to_expiry risk_free_rate volatility;
            d2 = d_sub d1 (d_mul volatility (d_sqrt time_to_expiry))
        in if is_call then
             d_sub (d_mul spot (normalCDF d1))
                   (d_mul (d_mul strike (d_exp (d_mul (d_neg risk_free_rate) time_to_expiry)))
                          (normalCDF d2))
           else
             d_sub (d_mul (d_mul strike (d_exp (d_mul (d_neg risk_free_rate) time_to_expiry)))
                          (normalCDF (d_neg d2)))
                   (d_mul spot (normalCDF (d_neg d1))))"

definition calculateOptionFairValue ::
  "double \<Rightarrow> double \<Rightarrow> double \<Rightarrow> double \<Rightarrow> double \<Rightarrow> string \<Rightarrow> double" where
  "calculateOptionFairValue spot_price strike time_to_expiry risk_free_rate volatility option_type =
     (let is_call = (option_type = ''CE'')
      in blackScholes spot_price strike time_to_expiry risk_free_rate volatility is_call)"

subsection \<open>The Greeks\<close>

record OptionGreeks =
  delta :: double
  gamma :: double
  theta :: double
  vega :: double
  rho :: double

definition calculateDelta :: "double \<Rightarrow> double \<Rightarrow> double \<Rightarrow> double \<Rightarrow> double \<Rightarrow> bool \<Rightarrow> double" where
  "calculateDelta spot strike time_to_expiry risk_free_rate volatility is_call =
     (if d_le time_to_expiry (Fin 0) then Fin 0
      else
        let d1 = bs_d1 spot strike time_to_expiry risk_free_rate volatility
        in if is_call then normalCDF d1 else d_sub (normalCDF d1) (Fin 1))"

definition calculateGamma :: "double \<Rightarrow> double \<Rightarrow> double \<Rightarrow> double \<Rightarrow> double \<Rightarrow> double" where
  "calculateGamma spot strike time_to_expiry risk_free_rate volatility =
     (if d_le time_to_expiry (Fin 0) then Fin 0
      else
        let d1 = bs_d1 spot strike time_to_expiry risk_free_rate volatility
        in d_div (normalPDF d1) (d_mul (d_mul spot volatility) (d_sqrt time_to_expiry)))"

definition calculateTheta :: "double \<Rightarrow> double \<Rightarrow> double \<Rightarrow> double \<Rightarrow> double \<Rightarrow> bool \<Rightarrow> double" where
  "calculateTheta spot strike time_to_expiry risk_free_rate volatility is_call =
     (if d_le time_to_expiry (Fin 0) then Fin 0
      else
        let d1 = bs_d1 spot strike time_to_expiry risk_free_rate volatility;
            d2 = d_sub d1 (d_mul volatility (d_sqrt time_to_expiry));
            term1 = d_div (d_neg (d_mul (d_mul spot (normalPDF d1)) volatility))
                          (d_mul (Fin 2) (d_sqrt time_to_expiry));
            term2 = d_mul (d_mul risk_free_rate strike)
                          (d_exp (d_mul (d_neg risk_free_rate) time_to_expiry))
        in if is_call then d_div (d_sub term1 (d_mul term2 (normalCDF d2))) (Fin 365)
           else d_div (d_add term1 (d_mul term2 (normalCDF (d_neg d2)))) (Fin 365))"

definition calculateVega :: "double \<Rightarrow> double \<Rightarrow> double \<Rightarrow> double \<Rightarrow> double \<Rightarrow> double" where
  "calculateVega spot strike time_to_expiry risk_free_rate volatility =
     (if d_le time_to_expiry (Fin 0) then Fin 0
      else
        let d1 = bs_d1 spot strike time_to_expiry risk_free_rate volatility
        in d_div (d_mul (d_mul spot (normalPDF d1)) (d_sqrt time_to_expiry)) (Fin 100))"

definition calculateGreeks ::
  "double \<Rightarrow> double \<Rightarrow> double \<Rightarrow> double \<Rightarrow> double \<Rightarrow> string \<Rightarrow> OptionGreeks" where
  "calculateGreeks spot_price strike time_to_expiry risk_free_rate volatility option_type =
     (let is_call = (option_type = ''CE'')
      in \<lparr> delta = calculateDelta spot_price strike time_to_expiry risk_free_rate volatility is_call,
           gamma = calculateGamma spot_price strike time_to_expiry risk_free_rate volatility,
           theta = calculateTheta spot_price strike time_to_expiry risk_free_rate volatility is_call,
           vega = calculateVega spot_price strike time_to_expiry risk_free_rate volatility,
           rho = Fin 0 \<rparr>)"

subsection \<open>The records of pricing\_engine.h\<close>

text \<open>
  A \<open>std::chrono::system_clock::time_point\<close> is the number of clock ticks since the epoch;
  the clock of libstdc++ ticks in nanoseconds. The fields of the structs keep their names
  behind a prefix for the struct, since several structs have a field \<open>symbol\<close>.
\<close>

type_synonym time_point = int

definition ticks_per_hour :: int where
  "ticks_per_hour = 3600000000000"

record MarketData =
  md_symbol :: string
  md_price :: double
  md_bid :: double
  md_ask :: double
  md_volume :: uint64
  md_open_interest :: uint64
  md_change :: double
  md_change_percent :: double
  md_last_updated :: time_point
  md_exchange :: string

record ContractDetails =
  cd_symbol :: string
  cd_underlying :: string
  cd_instrument_type :: string
  cd_strike :: double
  cd_expiry :: time_point
  cd_option_type :: string
  cd_lot_size :: double
  cd_tick_size :: double

record PriceComparison =
  pc_symbol :: string
  pc_instrument_type :: string
  pc_nse_price :: double
  pc_bse_price :: double
  pc_fair_value :: double
  pc_percentage_diff :: double
  pc_is_recommended :: bool
  pc_liquidity_score :: double
  pc_volume_30day :: uint64
  pc_current_volume :: uint64
  pc_open_interest :: uint64
  pc_exchange :: string
  pc_expiry_date :: time_point
  pc_bid_ask_spread :: double
  pc_impact_cost :: double
  pc_volume_compliant :: bool

text \<open>
  The data members of the class \<open>PricingEngine\<close>. A \<open>std::map\<close> that is only looked up
  by key is a partial function; \<open>contracts_\<close>, which \<open>getContracts\<close> iterates, is the list
  of its entries in the order of the iteration (ascending keys).
\<close>

record PricingEngine =
  nse_market_data :: "string \<rightharpoonup> MarketData"
  bse_market_data :: "string \<rightharpoonup> MarketData"
  contracts :: "(string \<times> ContractDetails) list"
  historical_volumes :: "string \<rightharpoonup> uint64 list"
  risk_free_rate :: double
  volume_threshold :: double
  implied_volatilities :: "string \<rightharpoonup> double"

text \<open>The constructor \<open>PricingEngine::PricingEngine()\<close>.\<close>

definition new_PricingEngine :: PricingEngine where
  "new_PricingEngine =
     \<lparr> nse_market_data = Map.empty,
       bse_market_data = Map.empty,
       contracts = [],
       historical_volumes = Map.empty,
       risk_free_rate = Fin 0.06,
       volume_threshold = Fin 0.05,
       implied_volatilities =
         [''NIFTY'' \<mapsto> Fin 0.15, ''BANKNIFTY'' \<mapsto> Fin 0.18, ''FINNIFTY'' \<mapsto> Fin 0.16] \<rparr>"

subsection \<open>Market data, contracts and the volume history\<close>

text \<open>
  The functions that read the system clock take the time of the call as the argument
  \<open>now\<close>; one call of \<open>compareContracts\<close> is modelled at one instant.
\<close>

definition getMarketData :: "PricingEngine \<Rightarrow> time_point \<Rightarrow> string \<Rightarrow> string \<Rightarrow> MarketData" where
  "getMarketData eng now symbol exchange =
     (case (if exchange = ''NSE'' then nse_market_data eng symbol else None) of
        Some md \<Rightarrow> md
      | None \<Rightarrow>
         (case (if exchange = ''BSE'' then bse_market_data eng symbol else None) of
            Some md \<Rightarrow> md
          | None \<Rightarrow>
              \<lparr> md_symbol = symbol, md_price = Fin 0, md_bid = Fin 0, md_ask = Fin 0,
                md_volume = 0, md_open_interest = 0, md_change = Fin 0,
                md_change_percent = Fin 0, md_last_updated = now, md_exchange = exchange \<rparr>))"

text \<open>
  \<open>std::string\<close> compares lexicographically by the values of the characters as unsigned
  bytes. \<open>contracts_[contract.symbol] = contract\<close> replaces the entry of the key when there
  is one and inserts a new entry at its place in the order of the keys otherwise.
\<close>

fun string_less :: "string \<Rightarrow> string \<Rightarrow> bool" where
  "string_less [] [] = False"
| "string_less [] (y # ys) = True"
| "string_less (x # xs) [] = False"
| "string_less (x # xs) (y # ys) =
     ((of_char x :: nat) < of_char y \<or> (x = y \<and> string_less xs ys))"

fun map_assign :: "string \<Rightarrow> 'v \<Rightarrow> (string \<times> 'v) list \<Rightarrow> (string \<times> 'v) list" where
  "map_assign k v [] = [(k, v)]"
| "map_assign k v (entry # entries) =
     (if k = fst entry then (k, v) # entries
      else if string_less k (fst entry) then (k, v) # entry # entries
      else entry # map_assign k v entries)"

definition addContract :: "PricingEngine \<Rightarrow> ContractDetails \<Rightarrow> PricingEngine" where
  "addContract eng contract =
     eng \<lparr> contracts := map_assign (cd_symbol contract) contract (contracts eng) \<rparr>"

definition getContracts :: "PricingEngine \<Rightarrow> string \<Rightarrow> ContractDetails list" where
  "getContracts eng underlying =
     map snd (filter (\<lambda>pair. cd_underlying (snd pair) = underlying) (contracts eng))"

text \<open>
  \<open>historical_volumes_[symbol]\<close> creates an empty history for a symbol that has none;
  \<open>erase(begin())\<close> removes the first, oldest, sample.
\<close>

definition updateHistoricalVolume :: "PricingEngine \<Rightarrow> string \<Rightarrow> uint64 \<Rightarrow> PricingEngine" where
  "updateHistoricalVolume eng symbol volume =
     (let volumes = (case historical_volumes eng symbol of None \<Rightarrow> [] | Some vs \<Rightarrow> vs) @ [volume];
          volumes = (if 30 < length volumes then tl volumes else volumes)
      in eng \<lparr> historical_volumes := (historical_volumes eng)(symbol \<mapsto> volumes) \<rparr>)"

text \<open>
  \<open>updateMarketData\<close> stores each quote of the batch under its exchange (a quote of another
  exchange is not stored) and appends its volume to the history of its symbol.
\<close>

definition updateMarketData :: "PricingEngine \<Rightarrow> MarketData list \<Rightarrow> PricingEngine" where
  "updateMarketData eng data =
     foldl (\<lambda>e md.
              updateHistoricalVolume
                (if md_exchange md = ''NSE''
                 then e \<lparr> nse_market_data := (nse_market_data e)(md_symbol md \<mapsto> md) \<rparr>
                 else if md_exchange md = ''BSE''
                 then e \<lparr> bse_market_data := (bse_market_data e)(md_symbol md \<mapsto> md) \<rparr>
                 else e)
                (md_symbol md) (md_volume md))
           eng data"

text \<open>
  \<open>std::accumulate\<close> from \<open>0ULL\<close> adds in 64-bit unsigned arithmetic, which wraps around;
  the quotient by \<open>size()\<close> is the quotient of unsigned integers, which rounds down.
\<close>

definition get30DayAverageVolume :: "PricingEngine \<Rightarrow> string \<Rightarrow> uint64" where
  "get30DayAverageVolume eng symbol =
     (case historical_volumes eng symbol of
        None \<Rightarrow> 0
      | Some volumes \<Rightarrow>
          if volumes = [] then 0
          else let sum = foldl (+) 0 volumes
               in word_of_nat (unat sum div length volumes))"

text \<open>
  \<open>duration_cast<hours>\<close> of a duration in ticks rounds towards zero, as the division of
  integers in C++ does.
\<close>

definition trunc_div :: "int \<Rightarrow> int \<Rightarrow> int" where
  "trunc_div a b =
     (if (a < 0) = (b < 0) then \<bar>a\<bar> div \<bar>b\<bar> else - (\<bar>a\<bar> div \<bar>b\<bar>))"

definition getTimeToExpiry :: "time_point \<Rightarrow> time_point \<Rightarrow> double" where
  "getTimeToExpiry now expiry =
     (let duration = expiry - now;
          days = d_div (Fin (real_of_int (trunc_div duration ticks_per_hour))) (Fin 24)
      in d_max (Fin 0) (d_div days (Fin 365)))"

subsection \<open>Fair value\<close>

text \<open>
  In the branch for cash the two volumes are added as \<open>uint64_t\<close> before the sum becomes a
  \<open>double\<close>. In the branch for options \<open>implied_volatilities_[contract.underlying]\<close> reads
  0.0 for an underlying that has no entry (and adds that entry, which later reads give
  back as the same 0.0, so the engine is not returned).
\<close>

definition calculateFairValue :: "PricingEngine \<Rightarrow> time_point \<Rightarrow> ContractDetails \<Rightarrow> double" where
  "calculateFairValue eng now contract =
     (if cd_instrument_type contract = ''CASH'' then
        let nse_data = getMarketData eng now (cd_symbol contract) ''NSE'';
            bse_data = getMarketData eng now (cd_symbol contract) ''BSE'';
            total_volume = d_of_u64 (md_volume nse_data + md_volume bse_data)
        in if d_lt (Fin 0) total_volume then
             d_div (d_add (d_mul (md_price nse_data) (d_of_u64 (md_volume nse_data)))
                          (d_mul (md_price bse_data) (d_of_u64 (md_volume bse_data))))
                   total_volume
           else d_div (d_add (md_price nse_data) (md_price bse_data)) (Fin 2)
      else if cd_instrument_type contract = ''FUTURE'' then
        let spot_data = getMarketData eng now (cd_underlying contract) ''NSE'';
            time_to_expiry = getTimeToExpiry now (cd_expiry contract)
        in d_mul (md_price spot_data) (d_exp (d_mul (risk_free_rate eng) time_to_expiry))
      else if cd_instrument_type contract = ''OPTION'' then
        let spot_data = getMarketData eng now (cd_underlying contract) ''NSE'';
            time_to_expiry = getTimeToExpiry now (cd_expiry contract);
            volatility = (case implied_volatilities eng (cd_underlying contract) of
                            None \<Rightarrow> Fin 0 | Some v \<Rightarrow> v)
        in calculateOptionFairValue (md_price spot_data) (cd_strike contract) time_to_expiry
             (risk_free_rate eng) volatility (cd_option_type contract)
      else Fin 0)"

subsection \<open>Liquidity, volume compliance and impact cost\<close>

definition calculateLiquidityScore :: "MarketData \<Rightarrow> uint64 \<Rightarrow> double" where
  "calculateLiquidityScore data volume_30day =
     (if volume_30day = 0 then Fin 0
      else
        let volume_ratio = d_div (d_of_u64 (md_volume data)) (d_of_u64 volume_30day);
            oi_factor = d_min (Fin 1) (d_div (d_of_u64 (md_open_interest data)) (Fin 1000000));
            spread_factor =
              d_div (Fin 1)
                (d_add (Fin 1)
                   (d_mul (d_div (d_sub (md_ask data) (md_bid data)) (md_price data)) (Fin 100)))
        in d_add (d_add (d_mul volume_ratio (Fin 0.4)) (d_mul oi_factor (Fin 0.3)))
                 (d_mul spread_factor (Fin 0.3)))"

definition checkVolumeConstraints :: "PricingEngine \<Rightarrow> string \<Rightarrow> double \<Rightarrow> bool" where
  "checkVolumeConstraints eng symbol quantity =
     (let avg_volume = get30DayAverageVolume eng symbol;
          threshold_volume = d_mul (d_of_u64 avg_volume) (volume_threshold eng)
      in d_le quantity threshold_volume)"

definition calculateImpactCost :: "MarketData \<Rightarrow> double \<Rightarrow> double" where
  "calculateImpactCost data quantity =
     (let volume_ratio = d_div quantity (d_of_u64 (md_volume data))
      in d_mul (d_div (d_mul volume_ratio (d_sub (md_ask data) (md_bid data))) (md_price data))
               (Fin 100))"

subsection \<open>compareContracts\<close>

text \<open>The body of the loop over the contracts: the comparison built for one contract.\<close>

definition compareContract ::
  "PricingEngine \<Rightarrow> time_point \<Rightarrow> double \<Rightarrow> ContractDetails \<Rightarrow> PriceComparison" where
  "compareContract eng now target_quantity contract =
     (let nse_data = getMarketData eng now (cd_symbol contract) ''NSE'';
          bse_data = getMarketData eng now (cd_symbol contract) ''BSE'';
          fair_value = calculateFairValue eng now contract;
          nse_diff = d_mul (d_div (d_abs (d_sub (md_price nse_data) fair_value)) fair_value) (Fin 100);
          bse_diff = d_mul (d_div (d_abs (d_sub (md_price bse_data) fair_value)) fair_value) (Fin 100);
          (percentage_diff, exchange, current_volume, open_interest, liquidity_score) =
            (if d_lt nse_diff bse_diff then
               (d_mul (d_div (d_sub (md_price nse_data) fair_value) fair_value) (Fin 100),
                ''NSE'',
                md_volume nse_data,
                md_open_interest nse_data,
                calculateLiquidityScore nse_data (get30DayAverageVolume eng (cd_symbol contract)))
             else
               (d_mul (d_div (d_sub (md_price bse_data) fair_value) fair_value) (Fin 100),
                ''BSE'',
                md_volume bse_data,
                md_open_interest bse_data,
                calculateLiquidityScore bse_data (get30DayAverageVolume eng (cd_symbol contract))));
          volume_compliant = checkVolumeConstraints eng (cd_symbol contract) target_quantity;
          selected_data = (if exchange = ''NSE'' then nse_data else bse_data);
          bid_ask_spread =
            d_mul (d_div (d_sub (md_ask selected_data) (md_bid selected_data))
                         (md_price selected_data))
                  (Fin 100)
      in \<lparr> pc_symbol = cd_symbol contract,
           pc_instrument_type = cd_instrument_type contract,
           pc_nse_price = md_price nse_data,
           pc_bse_price = md_price bse_data,
           pc_fair_value = fair_value,
           pc_percentage_diff = percentage_diff,
           pc_is_recommended =
             (d_lt (d_abs percentage_diff) (Fin 0.5) \<and> d_lt (Fin 0.6) liquidity_score
              \<and> volume_compliant \<and> d_lt bid_ask_spread (Fin 1)),
           pc_liquidity_score = liquidity_score,
           pc_volume_30day = get30DayAverageVolume eng (cd_symbol contract),
           pc_current_volume = current_volume,
           pc_open_interest = open_interest,
           pc_exchange = exchange,
           pc_expiry_date = cd_expiry contract,
           pc_bid_ask_spread = bid_ask_spread,
           pc_impact_cost = calculateImpactCost selected_data target_quantity,
           pc_volume_compliant = volume_compliant \<rparr>)"

text \<open>
  \<open>std::sort\<close> with the comparison of the absolute percentage differences. The standard
  requires a strict weak ordering and leaves the order of entries that compare equivalent
  open. The model is the insertion sort that libstdc++ runs on a sequence of at most 16
  entries: an entry less than the first one is moved to the front; any other entry is
  moved back past the entries before it for as long as it is less than them. The prefix
  that is already sorted is handed to \<open>linear_insert\<close> from its last entry to its first.
  On a longer sequence libstdc++ partitions first, and entries that compare equivalent can
  come out in another order.
\<close>

definition percentage_diff_less :: "PriceComparison \<Rightarrow> PriceComparison \<Rightarrow> bool" where
  "percentage_diff_less a b =
     d_lt (d_abs (pc_percentage_diff a)) (d_abs (pc_percentage_diff b))"

fun linear_insert :: "PriceComparison \<Rightarrow> PriceComparison list \<Rightarrow> PriceComparison list" where
  "linear_insert val [] = [val]"
| "linear_insert val (next # before) =
     (if percentage_diff_less val next then next # linear_insert val before
      else val # next # before)"

fun insertion_step :: "PriceComparison list \<Rightarrow> PriceComparison \<Rightarrow> PriceComparison list" where
  "insertion_step [] val = [val]"
| "insertion_step (first # rest) val =
     (if percentage_diff_less val first then val # first # rest
      else rev (linear_insert val (rev (first # rest))))"

fun std_sort :: "PriceComparison list \<Rightarrow> PriceComparison list" where
  "std_sort [] = []"
| "std_sort (first # rest) = foldl insertion_step [first] rest"

definition compareContracts ::
  "PricingEngine \<Rightarrow> time_point \<Rightarrow> string \<Rightarrow> double \<Rightarrow> PriceComparison list" where
  "compareContracts eng now underlying target_quantity =
     std_sort (map (compareContract eng now target_quantity) (getContracts eng underlying))"

section \<open>Notions used to state the properties\<close>

subsection \<open>Volume histories\<close>

text \<open>The stored history of a symbol, empty for a symbol that has none.\<close>

definition history :: "PricingEngine \<Rightarrow> string \<Rightarrow> uint64 list" where
  "history eng symbol = (case historical_volumes eng symbol of None \<Rightarrow> [] | Some vs \<Rightarrow> vs)"

text \<open>A sequence of calls of \<open>updateHistoricalVolume\<close>, each with its symbol and its sample.\<close>

definition updateHistoricalVolumes :: "PricingEngine \<Rightarrow> (string \<times> uint64) list \<Rightarrow> PricingEngine" where
  "updateHistoricalVolumes eng appends =
     foldl (\<lambda>e p. updateHistoricalVolume e (fst p) (snd p)) eng appends"

definition last30 :: "uint64 list \<Rightarrow> uint64 list" where
  "last30 vs = drop (length vs - 30) vs"

text \<open>The samples 1, 2, ..., 31 appended for one symbol.\<close>

definition appends31 :: "(string \<times> uint64) list" where
  "appends31 = map (\<lambda>n. (''NIFTY'', word_of_nat n)) [1..<32]"

text \<open>The exact arithmetic mean of the samples, as the specification words it.\<close>

definition arithmetic_mean :: "uint64 list \<Rightarrow> real" where
  "arithmetic_mean vs = (\<Sum>v\<leftarrow>vs. real (unat v)) / real (length vs)"

text \<open>A new engine after the samples 1 and 2 have been appended for one symbol.\<close>

definition engine_1_2 :: PricingEngine where
  "engine_1_2 =
     updateHistoricalVolume (updateHistoricalVolume new_PricingEngine ''NIFTY'' 1) ''NIFTY'' 2"

subsection \<open>Liquidity and volume compliance\<close>

text \<open>
  The liquidity score as the specification words it: the volume ratio is taken as 0 when
  the average is 0, and the other two factors still count.
\<close>

definition liquidity_score_spec :: "real \<Rightarrow> real \<Rightarrow> real \<Rightarrow> real \<Rightarrow> real \<Rightarrow> real \<Rightarrow> real" where
  "liquidity_score_spec currentVolume avg30dVolume openInterest price bid ask =
     (let volumeRatio = (if avg30dVolume = 0 then 0 else currentVolume / avg30dVolume);
          oiFactor = min 1 (openInterest / 1000000);
          spreadPct = (ask - bid) / price * 100;
          spreadFactor = 1 / (1 + spreadPct)
      in 0.4 * volumeRatio + 0.3 * oiFactor + 0.3 * spreadFactor)"

text \<open>The quote of the example in the specification.\<close>

definition example_quote :: MarketData where
  "example_quote =
     \<lparr> md_symbol = ''NIFTY'', md_price = Fin 100, md_bid = Fin 99, md_ask = Fin 101,
       md_volume = 5000, md_open_interest = 500000, md_change = Fin 0,
       md_change_percent = Fin 0, md_last_updated = 0, md_exchange = ''NSE'' \<rparr>"

text \<open>A new engine after one sample of 10000 has been appended for one symbol.\<close>

definition engine_10000 :: PricingEngine where
  "engine_10000 = updateHistoricalVolume new_PricingEngine ''NIFTY'' 10000"

subsection \<open>Example engines\<close>

text \<open>
  Quotes and contracts for the examples: an index quoted at 99.8 on NSE and at 100.3 on
  BSE, with volumes 3000 and 2000, so that its fair value is 100 (the example of the
  specification), a fund quoted at 50 on both exchanges, and a future.
\<close>

definition nifty_nse :: MarketData where
  "nifty_nse =
     \<lparr> md_symbol = ''NIFTY'', md_price = Fin 99.8, md_bid = Fin 99.7, md_ask = Fin 99.9,
       md_volume = 3000, md_open_interest = 0, md_change = Fin 0,
       md_change_percent = Fin 0, md_last_updated = 0, md_exchange = ''NSE'' \<rparr>"

definition nifty_bse :: MarketData where
  "nifty_bse =
     \<lparr> md_symbol = ''NIFTY'', md_price = Fin 100.3, md_bid = Fin 100.2, md_ask = Fin 100.4,
       md_volume = 2000, md_open_interest = 0, md_change = Fin 0,
       md_change_percent = Fin 0, md_last_updated = 0, md_exchange = ''BSE'' \<rparr>"

definition bees_nse :: MarketData where
  "bees_nse =
     \<lparr> md_symbol = ''NIFTYBEES'', md_price = Fin 50, md_bid = Fin 49.9, md_ask = Fin 50.1,
       md_volume = 1000, md_open_interest = 0, md_change = Fin 0,
       md_change_percent = Fin 0, md_last_updated = 0, md_exchange = ''NSE'' \<rparr>"

definition bees_bse :: MarketData where
  "bees_bse =
     \<lparr> md_symbol = ''NIFTYBEES'', md_price = Fin 50, md_bid = Fin 49.9, md_ask = Fin 50.1,
       md_volume = 1000, md_open_interest = 0, md_change = Fin 0,
       md_change_percent = Fin 0, md_last_updated = 0, md_exchange = ''BSE'' \<rparr>"

definition nifty_cash :: ContractDetails where
  "nifty_cash =
     \<lparr> cd_symbol = ''NIFTY'', cd_underlying = ''NIFTY'', cd_instrument_type = ''CASH'',
       cd_strike = Fin 0, cd_expiry = 0, cd_option_type = [], cd_lot_size = Fin 1,
       cd_tick_size = Fin 0.05 \<rparr>"

definition bees_cash :: ContractDetails where
  "bees_cash =
     \<lparr> cd_symbol = ''NIFTYBEES'', cd_underlying = ''NIFTY'', cd_instrument_type = ''CASH'',
       cd_strike = Fin 0, cd_expiry = 0, cd_option_type = [], cd_lot_size = Fin 1,
       cd_tick_size = Fin 0.01 \<rparr>"

text \<open>An engine that has received the four quotes and the two contracts.\<close>

definition engine_quotes :: PricingEngine where
  "engine_quotes =
     addContract
       (addContract
          (updateMarketData new_PricingEngine [nifty_nse, nifty_bse, bees_nse, bees_bse])
          bees_cash)
       nifty_cash"

text \<open>An engine in which the second contract has no quote on either exchange.\<close>

definition engine_missing :: PricingEngine where
  "engine_missing =
     addContract
       (addContract (updateMarketData new_PricingEngine [nifty_nse, nifty_bse]) bees_cash)
       nifty_cash"

text \<open>
  A future that expires 30 days after time 0, quoted on both exchanges, in an engine that
  has no quote for its underlying.
\<close>

definition banknifty_future :: ContractDetails where
  "banknifty_future =
     \<lparr> cd_symbol = ''BANKNIFTY24JANFUT'', cd_underlying = ''BANKNIFTY'',
       cd_instrument_type = ''FUTURE'', cd_strike = Fin 0, cd_expiry = 2592000000000000,
       cd_option_type = [], cd_lot_size = Fin 15, cd_tick_size = Fin 0.05 \<rparr>"

definition future_nse :: MarketData where
  "future_nse =
     \<lparr> md_symbol = ''BANKNIFTY24JANFUT'', md_price = Fin 48000, md_bid = Fin 47990,
       md_ask = Fin 48010, md_volume = 5000, md_open_interest = 100000, md_change = Fin 0,
       md_change_percent = Fin 0, md_last_updated = 0, md_exchange = ''NSE'' \<rparr>"

definition future_bse :: MarketData where
  "future_bse =
     \<lparr> md_symbol = ''BANKNIFTY24JANFUT'', md_price = Fin 48100, md_bid = Fin 48090,
       md_ask = Fin 48110, md_volume = 4000, md_open_interest = 80000, md_change = Fin 0,
       md_change_percent = Fin 0, md_last_updated = 0, md_exchange = ''BSE'' \<rparr>"

definition engine_future :: PricingEngine where
  "engine_future =
     addContract (updateMarketData new_PricingEngine [future_nse, future_bse]) banknifty_future"

section \<open>Properties of the option pricing functions\<close>

subsection \<open>The error function is odd\<close>

lemma erf_term_summable: "summable (erf_term x)"
proof (rule summable_comparison_test')
  show "summable (\<lambda>n. \<bar>x\<bar> * (inverse (fact n) * (x\<^sup>2) ^ n))"
    by (intro summable_mult summable_exp)
  fix n :: nat
  assume "0 \<le> n"
  have "norm (erf_term x n) = \<bar>x\<bar> ^ (2 * n + 1) / (fact n * real (2 * n + 1))"
    by (simp add: erf_term_def abs_mult power_abs)
  also have "\<dots> \<le> \<bar>x\<bar> ^ (2 * n + 1) / (fact n * 1)"
    by (intro divide_left_mono mult_left_mono) (auto)
  also have "\<dots> = \<bar>x\<bar> * (inverse (fact n) * (x\<^sup>2) ^ n)"
  proof -
    have "\<bar>x\<bar> ^ (2 * n) = (x\<^sup>2) ^ n"
      by (simp add: power_mult)
    then show ?thesis
      by (simp add: divide_inverse)
  qed
  finally show "norm (erf_term x n) \<le> \<bar>x\<bar> * (inverse (fact n) * (x\<^sup>2) ^ n)" .
qed

lemma erf_term_minus: "erf_term (- x) n = - erf_term x n"
  by (simp add: erf_term_def)

lemma erf_minus: "erf (- x) = - erf x"
proof -
  have "(\<Sum>n. erf_term (- x) n) = (\<Sum>n. - erf_term x n)"
    by (simp add: erf_term_minus)
  also have "\<dots> = - (\<Sum>n. erf_term x n)"
    by (rule suminf_minus [OF erf_term_summable])
  finally show ?thesis by (simp add: erf_def)
qed

lemma normalCDF_Fin: "normalCDF (Fin x) = Fin (0.5 * (1 + erf (x / sqrt 2)))"
  by (simp add: normalCDF_def)

lemma bs_d1_Fin:
  assumes "0 < S" "0 < K" "0 < T" "0 < v"
  shows "bs_d1 (Fin S) (Fin K) (Fin T) (Fin r) (Fin v) =
         Fin ((ln (S / K) + (r + 0.5 * v * v) * T) / (v * sqrt T))"
  using assms by (simp add: bs_d1_def)

subsection \<open>At or past expiry\<close>

text \<open>
  Claim C1. When the time to expiry is at most 0, \<open>blackScholes\<close> and
  \<open>calculateOptionFairValue\<close> return the intrinsic value, \<open>max 0 (S - K)\<close> for a call
  (option type \<open>CE\<close>) and \<open>max 0 (K - S)\<close> for a put, and \<open>calculateGreeks\<close> returns
  delta, gamma, theta, vega and rho all equal to 0, whatever its other arguments are.
\<close>

theorem expiry_intrinsic_value_zero_greeks:
  assumes "d_le T (Fin 0)"
  shows "blackScholes (Fin S) (Fin K) T r v True = Fin (max 0 (S - K))
       \<and> blackScholes (Fin S) (Fin K) T r v False = Fin (max 0 (K - S))
       \<and> calculateOptionFairValue (Fin S) (Fin K) T r v option_type =
           (if option_type = ''CE'' then Fin (max 0 (S - K)) else Fin (max 0 (K - S)))
       \<and> calculateGreeks spot strike T r v option_type =
           \<lparr> delta = Fin 0, gamma = Fin 0, theta = Fin 0, vega = Fin 0, rho = Fin 0 \<rparr>"
proof -
  have call: "blackScholes (Fin S) (Fin K) T r v True = Fin (max 0 (S - K))"
    using assms by (simp add: blackScholes_def d_max_def d_sub_def max_def)
  have put: "blackScholes (Fin S) (Fin K) T r v False = Fin (max 0 (K - S))"
    using assms by (simp add: blackScholes_def d_max_def d_sub_def max_def)
  have greeks: "calculateGreeks spot strike T r v option_type =
      \<lparr> delta = Fin 0, gamma = Fin 0, theta = Fin 0, vega = Fin 0, rho = Fin 0 \<rparr>"
    using assms
    by (simp add: calculateGreeks_def calculateDelta_def calculateGamma_def
        calculateTheta_def calculateVega_def)
  show ?thesis
    using call put greeks by (simp add: calculateOptionFairValue_def)
qed

theorem expiry_intrinsic_value_zero_greeks_witness:
  "d_le (Fin 0) (Fin 0)
   \<and> blackScholes (Fin 105) (Fin 100) (Fin 0) (Fin 0.06) (Fin 0.15) True = Fin 5
   \<and> blackScholes (Fin 105) (Fin 100) (Fin 0) (Fin 0.06) (Fin 0.15) False = Fin 0
   \<and> calculateOptionFairValue (Fin 105) (Fin 100) (Fin 0) (Fin 0.06) (Fin 0.15) ''PE'' = Fin 0
   \<and> calculateGreeks (Fin 105) (Fin 100) (Fin 0) (Fin 0.06) (Fin 0.15) ''PE'' =
       \<lparr> delta = Fin 0, gamma = Fin 0, theta = Fin 0, vega = Fin 0, rho = Fin 0 \<rparr>"
  using expiry_intrinsic_value_zero_greeks
    [where T = "Fin 0" and S = 105 and K = 100 and r = "Fin 0.06" and v = "Fin 0.15"
       and option_type = "''PE''" and spot = "Fin 105" and strike = "Fin 100"]
  by simp

subsection \<open>Put-call parity\<close>

text \<open>
  Claim C6. For a positive spot \<open>S\<close>, a positive strike \<open>K\<close>, any rate \<open>r\<close>, a positive
  time to expiry \<open>T\<close> and a positive volatility, the call price and the put price that
  \<open>blackScholes\<close> returns satisfy \<open>Call - Put = S - K * exp (- r * T)\<close>, exactly over the
  real numbers.
\<close>

theorem put_call_parity:
  assumes "0 < S" "0 < K" "0 < T" "0 < v"
  shows "d_sub (blackScholes (Fin S) (Fin K) (Fin T) (Fin r) (Fin v) True)
               (blackScholes (Fin S) (Fin K) (Fin T) (Fin r) (Fin v) False)
         = Fin (S - K * exp (- r * T))"
proof -
  define a where "a = (ln (S / K) + (r + 0.5 * v * v) * T) / (v * sqrt T)"
  define b where "b = a - v * sqrt T"
  have d1: "bs_d1 (Fin S) (Fin K) (Fin T) (Fin r) (Fin v) = Fin a"
    unfolding a_def by (rule bs_d1_Fin [OF assms])
  have T: "\<not> d_le (Fin T) (Fin 0)" using assms by simp
  have sq: "d_sqrt (Fin T) = Fin (sqrt T)" using assms by simp
  have call: "blackScholes (Fin S) (Fin K) (Fin T) (Fin r) (Fin v) True =
      Fin (S * (0.5 * (1 + erf (a / sqrt 2)))
           - K * exp (- r * T) * (0.5 * (1 + erf (b / sqrt 2))))"
    unfolding blackScholes_def
    by (simp only: T if_False d1 sq Let_def) (simp add: normalCDF_Fin d_sub_def b_def)
  have put: "blackScholes (Fin S) (Fin K) (Fin T) (Fin r) (Fin v) False =
      Fin (K * exp (- r * T) * (0.5 * (1 + erf (- b / sqrt 2)))
           - S * (0.5 * (1 + erf (- a / sqrt 2))))"
    unfolding blackScholes_def
    by (simp only: T if_False d1 sq Let_def) (simp add: normalCDF_Fin d_sub_def b_def)
  have ea: "erf (- a / sqrt 2) = - erf (a / sqrt 2)"
    using erf_minus [of "a / sqrt 2"] by simp
  have eb: "erf (- b / sqrt 2) = - erf (b / sqrt 2)"
    using erf_minus [of "b / sqrt 2"] by simp
  show ?thesis
    unfolding call put ea eb by (simp add: d_sub_def algebra_simps)
qed

theorem put_call_parity_witness:
  "(0::real) < 19850 \<and> (0::real) < 20000 \<and> (0::real) < 30 / 365 \<and> (0::real) < 0.15
   \<and> d_sub (blackScholes (Fin 19850) (Fin 20000) (Fin (30 / 365)) (Fin 0.06) (Fin 0.15) True)
            (blackScholes (Fin 19850) (Fin 20000) (Fin (30 / 365)) (Fin 0.06) (Fin 0.15) False)
       = Fin (19850 - 20000 * exp (- 0.06 * (30 / 365)))"
  using put_call_parity [where S = 19850 and K = 20000 and T = "30 / 365" and v = "0.15"
      and r = "0.06"]
  by simp

section \<open>Properties of the volume history\<close>

lemma history_updateHistoricalVolume:
  "history (updateHistoricalVolume eng s v) s' =
     (if s' = s then (if 30 < length (history eng s @ [v]) then tl (history eng s @ [v])
                      else history eng s @ [v])
      else history eng s')"
  by (simp add: history_def updateHistoricalVolume_def Let_def)

lemma last30_snoc:
  "(if 30 < length (last30 vs @ [v]) then tl (last30 vs @ [v]) else last30 vs @ [v])
     = last30 (vs @ [v])"
proof (cases "30 \<le> length vs")
  case True
  define k where "k = length vs - 30"
  have k: "k < length vs" "length (vs @ [v]) - 30 = Suc k" "length vs - k = 30"
    using True by (simp_all add: k_def)
  have ne: "drop k vs \<noteq> []" using k by simp
  have "tl (drop k vs @ [v]) = tl (drop k vs) @ [v]"
    using ne by (cases "drop k vs") simp_all
  also have "\<dots> = drop (Suc k) vs @ [v]"
    by (simp add: tl_drop drop_Suc)
  also have "\<dots> = drop (Suc k) (vs @ [v])"
    using k by simp
  finally have "tl (last30 vs @ [v]) = last30 (vs @ [v])"
    unfolding last30_def k_def [symmetric] k(2) .
  moreover have "length (last30 vs) = 30"
    using k by (simp add: last30_def k_def)
  ultimately show ?thesis by simp
next
  case False
  then show ?thesis by (simp add: last30_def)
qed

lemma history_updateHistoricalVolumes:
  assumes "history eng s = last30 vs0"
  shows "history (updateHistoricalVolumes eng appends) s =
         last30 (vs0 @ map snd (filter (\<lambda>p. fst p = s) appends))"
proof (induction appends rule: rev_induct)
  case Nil
  then show ?case by (simp add: updateHistoricalVolumes_def assms)
next
  case (snoc p ps)
  have step: "updateHistoricalVolumes eng (ps @ [p]) =
      updateHistoricalVolume (updateHistoricalVolumes eng ps) (fst p) (snd p)"
    by (simp add: updateHistoricalVolumes_def)
  define H where "H = history (updateHistoricalVolumes eng ps) s"
  define xs where "xs = vs0 @ map snd (filter (\<lambda>p. fst p = s) ps)"
  have IH: "H = last30 xs"
    unfolding H_def xs_def by (rule snoc.IH)
  show ?case
  proof (cases "fst p = s")
    case True
    have "history (updateHistoricalVolumes eng (ps @ [p])) s =
        (if 30 < length (H @ [snd p]) then tl (H @ [snd p]) else H @ [snd p])"
      unfolding step H_def using True by (simp only: history_updateHistoricalVolume refl if_True)
    also have "\<dots> = last30 (xs @ [snd p])"
      unfolding IH by (rule last30_snoc)
    also have "xs @ [snd p] = vs0 @ map snd (filter (\<lambda>p. fst p = s) (ps @ [p]))"
      using True by (simp add: xs_def)
    finally show ?thesis .
  next
    case False
    then have "history (updateHistoricalVolumes eng (ps @ [p])) s = H"
      unfolding step H_def by (simp add: history_updateHistoricalVolume)
    moreover have "xs = vs0 @ map snd (filter (\<lambda>p. fst p = s) (ps @ [p]))"
      using False by (simp add: xs_def)
    ultimately show ?thesis using IH by simp
  qed
qed

lemma history_new: "history new_PricingEngine s = []"
  by (simp add: history_def new_PricingEngine_def)

lemma history_from_new:
  "history (updateHistoricalVolumes new_PricingEngine appends) s =
     last30 (map snd (filter (\<lambda>p. fst p = s) appends))"
  using history_updateHistoricalVolumes [of new_PricingEngine s "[]" appends]
  by (simp add: history_new last30_def)

lemma get30DayAverageVolume_history:
  "get30DayAverageVolume eng s =
     (if history eng s = [] then 0
      else word_of_nat (unat (foldl (+) 0 (history eng s)) div length (history eng s)))"
  by (simp add: get30DayAverageVolume_def history_def Let_def split: option.splits)

lemma last30_idem: "last30 (last30 vs) = last30 vs"
  by (simp add: last30_def)

text \<open>
  Claim C7. After any sequence of calls of \<open>updateHistoricalVolume\<close> on a new engine, the
  history stored for a symbol has at most 30 entries and consists of the last 30 samples
  appended for that symbol, in their order (the oldest are dropped first); after 31
  appends it is the samples without the first one; and the average is the one of an
  engine that has only ever seen the retained samples.
\<close>

theorem volume_history_fifo_30:
  "(let eng = updateHistoricalVolumes new_PricingEngine appends;
        samples = map snd (filter (\<lambda>p. fst p = symbol) appends)
    in length (history eng symbol) \<le> 30
     \<and> history eng symbol = drop (length samples - 30) samples
     \<and> (length samples = 31 \<longrightarrow> history eng symbol = tl samples)
     \<and> get30DayAverageVolume eng symbol =
         get30DayAverageVolume
           (updateHistoricalVolumes new_PricingEngine
              (map (Pair symbol) (drop (length samples - 30) samples))) symbol)"
proof -
  define samples where "samples = map snd (filter (\<lambda>p. fst p = symbol) appends)"
  have h: "history (updateHistoricalVolumes new_PricingEngine appends) symbol = last30 samples"
    unfolding samples_def by (rule history_from_new)
  have "map snd (filter (\<lambda>p. fst p = symbol) (map (Pair symbol) (last30 samples))) = last30 samples"
    by (simp add: filter_map o_def)
  then have h': "history (updateHistoricalVolumes new_PricingEngine
        (map (Pair symbol) (last30 samples))) symbol = last30 samples"
    using history_from_new [of "map (Pair symbol) (last30 samples)" symbol]
    by (simp add: last30_idem)
  have len: "length (last30 samples) \<le> 30"
    by (simp add: last30_def)
  have tl: "length samples = 31 \<Longrightarrow> last30 samples = tl samples"
    by (simp add: last30_def drop_Suc)
  have avg: "get30DayAverageVolume (updateHistoricalVolumes new_PricingEngine appends) symbol =
      get30DayAverageVolume (updateHistoricalVolumes new_PricingEngine
        (map (Pair symbol) (last30 samples))) symbol"
    by (simp only: get30DayAverageVolume_history h h')
  show ?thesis
    using h len tl avg
    unfolding Let_def samples_def [symmetric] last30_def by simp
qed


theorem volume_history_fifo_30_witness:
  "length (map snd (filter (\<lambda>p. fst p = ''NIFTY'') appends31)) = 31
   \<and> history (updateHistoricalVolumes new_PricingEngine appends31) ''NIFTY''
       = tl (map snd appends31)
   \<and> length (history (updateHistoricalVolumes new_PricingEngine appends31) ''NIFTY'') \<le> 30"
proof -
  have samples: "map snd (filter (\<lambda>p. fst p = ''NIFTY'') appends31) = map snd appends31"
    by (simp add: appends31_def filter_map o_def)
  have len: "length (map snd appends31) = 31"
    by (simp add: appends31_def)
  show ?thesis
    using volume_history_fifo_30 [of appends31 "''NIFTY''"]
    unfolding Let_def samples using len by (simp add: drop_Suc)
qed

lemma unat_foldl_plus:
  "unat (foldl (+) (a :: uint64) vs) = (unat a + sum_list (map unat vs)) mod 2 ^ 64"
proof (induction vs arbitrary: a)
  case Nil
  have "unat a < 2 ^ 64"
    using unsigned_less [of a] by simp
  then show ?case by simp
next
  case (Cons v vs)
  show ?case
    unfolding foldl_Cons Cons.IH
    by (simp add: unat_word_ariths mod_add_left_eq add.assoc)
qed

text \<open>
  Claim C8 says that \<open>get30DayAverageVolume\<close> returns the exact arithmetic mean. With the
  samples 1 and 2 stored it returns 1, and the mean is 3/2.
\<close>

theorem average_volume_exact_mean_counterexample:
  "history engine_1_2 ''NIFTY'' = [1, 2]
   \<and> get30DayAverageVolume engine_1_2 ''NIFTY'' = 1
   \<and> arithmetic_mean (history engine_1_2 ''NIFTY'') = 3 / 2
   \<and> real (unat (get30DayAverageVolume engine_1_2 ''NIFTY''))
       \<noteq> arithmetic_mean (history engine_1_2 ''NIFTY'')"
proof -
  have h: "history engine_1_2 ''NIFTY'' = [1, 2]"
    by (simp add: engine_1_2_def history_updateHistoricalVolume history_new)
  have "(3::nat) div Suc (Suc 0) = 1"
    by arith
  then have a: "get30DayAverageVolume engine_1_2 ''NIFTY'' = 1"
    by (simp add: get30DayAverageVolume_history h)
  show ?thesis
    by (simp add: h a arithmetic_mean_def)
qed

text \<open>
  Claim C8, amended. \<open>get30DayAverageVolume\<close> returns 0 when the symbol has no history or
  an empty one; for a non-empty history whose samples add up to less than \<open>2^64\<close> it
  returns the sum divided by the count as unsigned integers, which is the arithmetic
  mean rounded down to a whole number.
\<close>

theorem average_volume_floor_mean:
  "((historical_volumes eng symbol = None \<or> historical_volumes eng symbol = Some [])
      \<longrightarrow> get30DayAverageVolume eng symbol = 0)
   \<and> (historical_volumes eng symbol = Some vs \<and> vs \<noteq> [] \<and> sum_list (map unat vs) < 2 ^ 64
      \<longrightarrow> unat (get30DayAverageVolume eng symbol) = sum_list (map unat vs) div length vs
        \<and> int (unat (get30DayAverageVolume eng symbol)) = \<lfloor>arithmetic_mean vs\<rfloor>)"
proof -
  have empty: "(historical_volumes eng symbol = None \<or> historical_volumes eng symbol = Some [])
      \<longrightarrow> get30DayAverageVolume eng symbol = 0"
    by (auto simp: get30DayAverageVolume_def)
  have mean: "unat (get30DayAverageVolume eng symbol) = sum_list (map unat vs) div length vs
      \<and> int (unat (get30DayAverageVolume eng symbol)) = \<lfloor>arithmetic_mean vs\<rfloor>"
    if hv: "historical_volumes eng symbol = Some vs" and ne: "vs \<noteq> []"
      and small: "sum_list (map unat vs) < 2 ^ 64" for vs
  proof -
    define n where "n = sum_list (map unat vs)"
    have sum: "unat (foldl (+) 0 vs) = n"
      using small by (simp add: unat_foldl_plus n_def)
    have "n div length vs \<le> n" by simp
    then have lt: "n div length vs < 2 ^ 64"
      using small unfolding n_def by linarith
    have avg: "get30DayAverageVolume eng symbol = word_of_nat (n div length vs)"
      using hv ne by (simp add: get30DayAverageVolume_def Let_def sum)
    have u: "unat (get30DayAverageVolume eng symbol) = n div length vs"
      unfolding avg using lt by (simp add: unat_of_nat)
    have "(\<Sum>v\<leftarrow>vs. real (unat v)) = real n"
      unfolding n_def by (induction vs) simp_all
    then have "\<lfloor>arithmetic_mean vs\<rfloor> = int (n div length vs)"
      by (simp add: arithmetic_mean_def floor_divide_of_nat_eq)
    then show ?thesis using u by (simp add: n_def)
  qed
  show ?thesis using empty mean by blast
qed


theorem average_volume_floor_mean_witness:
  "historical_volumes new_PricingEngine ''NIFTY'' = None
   \<and> get30DayAverageVolume new_PricingEngine ''NIFTY'' = 0
   \<and> historical_volumes engine_1_2 ''NIFTY'' = Some [1, 2]
   \<and> [1, 2 :: uint64] \<noteq> [] \<and> sum_list (map unat [1, 2 :: uint64]) < 2 ^ 64
   \<and> unat (get30DayAverageVolume engine_1_2 ''NIFTY'') = 1"
proof -
  have none: "historical_volumes new_PricingEngine ''NIFTY'' = None"
    by (simp add: new_PricingEngine_def)
  have some: "historical_volumes engine_1_2 ''NIFTY'' = Some [1, 2]"
    by (simp add: engine_1_2_def updateHistoricalVolume_def new_PricingEngine_def)
  have small: "sum_list (map unat [1, 2 :: uint64]) < 2 ^ 64"
    by simp
  have s3: "sum_list (map unat [1, 2 :: uint64]) = 3"
    by simp
  have l2: "length [1, 2 :: uint64] = 2"
    by simp
  have "sum_list (map unat [1, 2 :: uint64]) div length [1, 2 :: uint64] = 1"
    unfolding s3 l2 by simp
  then show ?thesis
    using average_volume_floor_mean [of new_PricingEngine "''NIFTY''" "[]"]
      average_volume_floor_mean [of engine_1_2 "''NIFTY''" "[1, 2]"]
      none some small
    by simp
qed

section \<open>Properties of the liquidity functions\<close>

text \<open>
  Claim C9. With a finite configured threshold, \<open>checkVolumeConstraints\<close> returns true
  exactly when the quantity is at most the 30-day average volume times the threshold;
  when the average is 0 it returns false for every quantity above 0 and true for the
  quantity 0; and the threshold of a new engine is 5 percent.
\<close>

theorem volume_constraint_threshold:
  assumes "volume_threshold eng = Fin threshold"
  shows "(checkVolumeConstraints eng symbol (Fin quantity)
            \<longleftrightarrow> quantity \<le> real (unat (get30DayAverageVolume eng symbol)) * threshold)
       \<and> (get30DayAverageVolume eng symbol = 0 \<longrightarrow>
            (\<forall>q. d_lt (Fin 0) q \<longrightarrow> \<not> checkVolumeConstraints eng symbol q)
            \<and> checkVolumeConstraints eng symbol (Fin 0))
       \<and> volume_threshold new_PricingEngine = Fin 0.05"
proof -
  have iff: "checkVolumeConstraints eng symbol (Fin quantity)
      \<longleftrightarrow> quantity \<le> real (unat (get30DayAverageVolume eng symbol)) * threshold"
    using assms by (simp add: checkVolumeConstraints_def d_of_u64_def)
  have zero: "checkVolumeConstraints eng symbol q \<longleftrightarrow> d_le q (Fin 0)"
    if "get30DayAverageVolume eng symbol = 0" for q
    using assms that by (simp add: checkVolumeConstraints_def d_of_u64_def)
  have pos: "\<not> d_le q (Fin 0)" if "d_lt (Fin 0) q" for q
    using that by (cases q) simp_all
  show ?thesis
    using iff zero pos by (simp add: new_PricingEngine_def)
qed

theorem volume_constraint_threshold_witness:
  "volume_threshold new_PricingEngine = Fin 0.05
   \<and> get30DayAverageVolume new_PricingEngine ''NIFTY'' = 0
   \<and> d_lt (Fin 0) (Fin 1)
   \<and> \<not> checkVolumeConstraints new_PricingEngine ''NIFTY'' (Fin 1)
   \<and> checkVolumeConstraints new_PricingEngine ''NIFTY'' (Fin 0)
   \<and> volume_threshold engine_10000 = Fin 0.05
   \<and> get30DayAverageVolume engine_10000 ''NIFTY'' = 10000
   \<and> checkVolumeConstraints engine_10000 ''NIFTY'' (Fin 400)
   \<and> \<not> checkVolumeConstraints engine_10000 ''NIFTY'' (Fin 600)"
proof -
  have t0: "volume_threshold new_PricingEngine = Fin 0.05"
    by (simp add: new_PricingEngine_def)
  have a0: "get30DayAverageVolume new_PricingEngine ''NIFTY'' = 0"
    by (simp add: get30DayAverageVolume_def new_PricingEngine_def)
  have t1: "volume_threshold engine_10000 = Fin 0.05"
    by (simp add: engine_10000_def updateHistoricalVolume_def new_PricingEngine_def)
  have a1: "get30DayAverageVolume engine_10000 ''NIFTY'' = 10000"
    by (simp add: engine_10000_def get30DayAverageVolume_history history_updateHistoricalVolume
        history_new)
  show ?thesis
    using volume_constraint_threshold [OF t0, of "''NIFTY''" 1]
      volume_constraint_threshold [OF t1, of "''NIFTY''" 400]
      volume_constraint_threshold [OF t1, of "''NIFTY''" 600]
      t0 a0 t1 a1
    by simp
qed

text \<open>
  Claim C4 says that with an average volume of 0 the score still is
  \<open>0.3 * oiFactor + 0.3 * spreadFactor\<close>. For the example quote that would be 1/4; the
  function returns 0.
\<close>

theorem liquidity_score_zero_average_counterexample:
  "calculateLiquidityScore example_quote 0 = Fin 0
   \<and> liquidity_score_spec 5000 0 500000 100 99 101 = 1 / 4
   \<and> calculateLiquidityScore example_quote 0
       \<noteq> Fin (liquidity_score_spec (real (unat (md_volume example_quote))) 0
                (real (unat (md_open_interest example_quote))) 100 99 101)"
  by (simp add: calculateLiquidityScore_def liquidity_score_spec_def example_quote_def)

text \<open>
  Claim C4, amended. \<open>calculateLiquidityScore\<close> returns 0 when the 30-day average volume is
  0. When the average is not 0, for a quote with finite bid and ask, a finite price other
  than 0 and a spread percentage other than \<open>-1\<close>, it returns
  \<open>0.4 * volumeRatio + 0.3 * oiFactor + 0.3 * spreadFactor\<close> with
  \<open>volumeRatio = currentVolume / avg30dVolume\<close>, \<open>oiFactor = min 1 (openInterest / 1000000)\<close>,
  \<open>spreadFactor = 1 / (1 + spreadPct)\<close> and \<open>spreadPct = (ask - bid) / price * 100\<close>.
\<close>

theorem liquidity_score_formula:
  "calculateLiquidityScore data 0 = Fin 0
   \<and> (volume_30day \<noteq> 0 \<and> md_price data = Fin price \<and> md_bid data = Fin bid
        \<and> md_ask data = Fin ask \<and> price \<noteq> 0 \<and> 1 + (ask - bid) / price * 100 \<noteq> 0
      \<longrightarrow> calculateLiquidityScore data volume_30day =
            Fin (liquidity_score_spec (real (unat (md_volume data))) (real (unat volume_30day))
                   (real (unat (md_open_interest data))) price bid ask))"
proof -
  have zero: "calculateLiquidityScore data 0 = Fin 0"
    by (simp add: calculateLiquidityScore_def)
  have formula: "calculateLiquidityScore data volume_30day =
      Fin (liquidity_score_spec (real (unat (md_volume data))) (real (unat volume_30day))
             (real (unat (md_open_interest data))) price bid ask)"
    if nz: "volume_30day \<noteq> 0" and p: "md_price data = Fin price" and b: "md_bid data = Fin bid"
      and a: "md_ask data = Fin ask" and pnz: "price \<noteq> 0"
      and snz: "1 + (ask - bid) / price * 100 \<noteq> 0"
  proof -
    have u: "real (unat volume_30day) \<noteq> 0"
      using nz by (simp add: unsigned_eq_0_iff)
    have oi: "d_min (Fin 1) (Fin x) = Fin (min 1 x)" for x
      by (simp add: d_min_def min_def)
    show ?thesis
      using u pnz snz
      by (simp add: calculateLiquidityScore_def liquidity_score_spec_def nz p b a d_of_u64_def
          d_sub_def oi Let_def)
  qed
  show ?thesis using zero formula by blast
qed

theorem liquidity_score_formula_witness:
  "(10000 :: uint64) \<noteq> 0 \<and> md_price example_quote = Fin 100 \<and> md_bid example_quote = Fin 99
   \<and> md_ask example_quote = Fin 101 \<and> (100 :: real) \<noteq> 0
   \<and> 1 + (101 - 99) / 100 * 100 \<noteq> (0 :: real)
   \<and> calculateLiquidityScore example_quote 10000 = Fin (9 / 20)"
proof -
  have "liquidity_score_spec (real (unat (md_volume example_quote))) (real (unat (10000 :: uint64)))
           (real (unat (md_open_interest example_quote))) 100 99 101 = 9 / 20"
    by (simp add: liquidity_score_spec_def example_quote_def)
  then show ?thesis
    using liquidity_score_formula [of example_quote 10000 100 99 101]
    by (simp add: example_quote_def)
qed

text \<open>
  For a quote with a current volume other than 0 and a finite price other than 0,
  \<open>calculateImpactCost\<close> returns \<open>quantity / currentVolume * spreadPct\<close>.
\<close>

lemma impact_cost_formula:
  assumes "md_volume data \<noteq> 0" "md_price data = Fin price" "price \<noteq> 0"
    "md_bid data = Fin bid" "md_ask data = Fin ask"
  shows "calculateImpactCost data (Fin quantity) =
         Fin (quantity / real (unat (md_volume data)) * ((ask - bid) / price * 100))"
proof -
  have "real (unat (md_volume data)) \<noteq> 0"
    using assms(1) by (simp add: unsigned_eq_0_iff)
  then show ?thesis
    using assms by (simp add: calculateImpactCost_def d_of_u64_def d_sub_def)
qed

text \<open>
  Claim C5 asks for a guard in \<open>calculateImpactCost\<close> against a current volume of 0 and
  for a result that is neither NaN nor an infinity. The function divides without a guard:
  for the placeholder quote that \<open>getMarketData\<close> returns for a symbol without data it
  returns NaN, and for a quote with prices but volume 0 it returns plus infinity for the
  quantity 1 and NaN for the quantity 0.
\<close>

theorem impact_cost_zero_volume:
  "md_volume (getMarketData new_PricingEngine 0 ''NIFTY'' ''NSE'') = 0
   \<and> calculateImpactCost (getMarketData new_PricingEngine 0 ''NIFTY'' ''NSE'') (Fin 1) = NaN
   \<and> calculateImpactCost (example_quote \<lparr> md_volume := 0 \<rparr>) (Fin 1) = PInf
   \<and> calculateImpactCost (example_quote \<lparr> md_volume := 0 \<rparr>) (Fin 0) = NaN"
  by (simp add: calculateImpactCost_def getMarketData_def new_PricingEngine_def example_quote_def
      d_of_u64_def d_sub_def inf_of_sign_def)

section \<open>Properties of compareContracts\<close>

subsection \<open>The sort\<close>

lemma set_linear_insert: "set (linear_insert val before) = insert val (set before)"
  by (induction before) auto

lemma set_insertion_step: "set (insertion_step pre val) = insert val (set pre)"
  by (cases pre) (auto simp: set_linear_insert)

lemma set_foldl_insertion_step:
  "set (foldl insertion_step pre xs) = set pre \<union> set xs"
  by (induction xs arbitrary: pre) (simp_all add: set_insertion_step)

lemma set_std_sort: "set (std_sort xs) = set xs"
  by (cases xs) (simp_all add: set_foldl_insertion_step)

lemma set_compareContracts:
  "set (compareContracts eng now underlying target_quantity) =
     compareContract eng now target_quantity ` set (getContracts eng underlying)"
  by (simp add: compareContracts_def set_std_sort)

lemma d_lt_irrefl: "\<not> d_lt a a"
  by (cases a) simp_all

subsection \<open>The comparison built for one contract\<close>

lemma compareContract_exchange:
  "pc_exchange (compareContract eng now q contract) =
     (if d_lt (d_mul (d_div (d_abs (d_sub (md_price (getMarketData eng now (cd_symbol contract) ''NSE''))
                                          (calculateFairValue eng now contract)))
                            (calculateFairValue eng now contract)) (Fin 100))
              (d_mul (d_div (d_abs (d_sub (md_price (getMarketData eng now (cd_symbol contract) ''BSE''))
                                          (calculateFairValue eng now contract)))
                            (calculateFairValue eng now contract)) (Fin 100))
      then ''NSE'' else ''BSE'')"
  by (simp add: compareContract_def Let_def)

lemma compareContract_selected:
  "pc_percentage_diff (compareContract eng now q contract) =
     d_mul (d_div (d_sub (md_price (if pc_exchange (compareContract eng now q contract) = ''NSE''
                                    then getMarketData eng now (cd_symbol contract) ''NSE''
                                    else getMarketData eng now (cd_symbol contract) ''BSE''))
                         (calculateFairValue eng now contract))
                  (calculateFairValue eng now contract)) (Fin 100)"
  "pc_current_volume (compareContract eng now q contract) =
     md_volume (if pc_exchange (compareContract eng now q contract) = ''NSE''
                then getMarketData eng now (cd_symbol contract) ''NSE''
                else getMarketData eng now (cd_symbol contract) ''BSE'')"
  "pc_open_interest (compareContract eng now q contract) =
     md_open_interest (if pc_exchange (compareContract eng now q contract) = ''NSE''
                then getMarketData eng now (cd_symbol contract) ''NSE''
                else getMarketData eng now (cd_symbol contract) ''BSE'')"
  "pc_liquidity_score (compareContract eng now q contract) =
     calculateLiquidityScore
       (if pc_exchange (compareContract eng now q contract) = ''NSE''
        then getMarketData eng now (cd_symbol contract) ''NSE''
        else getMarketData eng now (cd_symbol contract) ''BSE'')
       (get30DayAverageVolume eng (cd_symbol contract))"
  "pc_bid_ask_spread (compareContract eng now q contract) =
     (let selected = (if pc_exchange (compareContract eng now q contract) = ''NSE''
                      then getMarketData eng now (cd_symbol contract) ''NSE''
                      else getMarketData eng now (cd_symbol contract) ''BSE'')
      in d_mul (d_div (d_sub (md_ask selected) (md_bid selected)) (md_price selected)) (Fin 100))"
  "pc_impact_cost (compareContract eng now q contract) =
     calculateImpactCost
       (if pc_exchange (compareContract eng now q contract) = ''NSE''
        then getMarketData eng now (cd_symbol contract) ''NSE''
        else getMarketData eng now (cd_symbol contract) ''BSE'') q"
  by (simp_all add: compareContract_def Let_def)

lemma compareContract_copied:
  "pc_symbol (compareContract eng now q contract) = cd_symbol contract"
  "pc_nse_price (compareContract eng now q contract) =
     md_price (getMarketData eng now (cd_symbol contract) ''NSE'')"
  "pc_bse_price (compareContract eng now q contract) =
     md_price (getMarketData eng now (cd_symbol contract) ''BSE'')"
  "pc_fair_value (compareContract eng now q contract) = calculateFairValue eng now contract"
  by (simp_all add: compareContract_def Let_def)

lemma getMarketData_absent:
  assumes "nse_market_data eng symbol = None" "bse_market_data eng symbol = None"
  shows "md_price (getMarketData eng now symbol exchange) = Fin 0"
    "md_volume (getMarketData eng now symbol exchange) = 0"
  using assms by (simp_all add: getMarketData_def)

subsection \<open>The example engines\<close>

lemma symbols: "cd_symbol nifty_cash = ''NIFTY''" "cd_symbol bees_cash = ''NIFTYBEES''"
  by (simp_all add: nifty_cash_def bees_cash_def)

lemma prices:
  "md_price nifty_nse = Fin 99.8" "md_price nifty_bse = Fin 100.3"
  "md_price bees_nse = Fin 50" "md_price bees_bse = Fin 50"
  by (simp_all add: nifty_nse_def nifty_bse_def bees_nse_def bees_bse_def)

lemma contracts_engine_quotes:
  "contracts engine_quotes = [(''NIFTY'', nifty_cash), (''NIFTYBEES'', bees_cash)]"
  by (simp add: engine_quotes_def addContract_def updateMarketData_def updateHistoricalVolume_def
      new_PricingEngine_def nifty_cash_def bees_cash_def nifty_nse_def nifty_bse_def bees_nse_def
      bees_bse_def)

lemma getContracts_engine_quotes:
  "getContracts engine_quotes ''NIFTY'' = [nifty_cash, bees_cash]"
  by (simp add: getContracts_def contracts_engine_quotes) (simp add: nifty_cash_def bees_cash_def)

lemma quotes_engine_quotes:
  "getMarketData engine_quotes now ''NIFTY'' ''NSE'' = nifty_nse"
  "getMarketData engine_quotes now ''NIFTY'' ''BSE'' = nifty_bse"
  "getMarketData engine_quotes now ''NIFTYBEES'' ''NSE'' = bees_nse"
  "getMarketData engine_quotes now ''NIFTYBEES'' ''BSE'' = bees_bse"
  by (simp_all add: getMarketData_def engine_quotes_def addContract_def updateMarketData_def
      updateHistoricalVolume_def new_PricingEngine_def nifty_nse_def nifty_bse_def bees_nse_def
      bees_bse_def)

lemma getContracts_engine_missing:
  "getContracts engine_missing ''NIFTY'' = [nifty_cash, bees_cash]"
  by (simp add: getContracts_def engine_missing_def addContract_def updateMarketData_def
      updateHistoricalVolume_def new_PricingEngine_def nifty_cash_def bees_cash_def nifty_nse_def
      nifty_bse_def)

lemma quotes_engine_missing:
  "getMarketData engine_missing now ''NIFTY'' ''NSE'' = nifty_nse"
  "getMarketData engine_missing now ''NIFTY'' ''BSE'' = nifty_bse"
  "nse_market_data engine_missing ''NIFTYBEES'' = None"
  "bse_market_data engine_missing ''NIFTYBEES'' = None"
  by (simp_all add: getMarketData_def engine_missing_def addContract_def updateMarketData_def
      updateHistoricalVolume_def new_PricingEngine_def nifty_nse_def nifty_bse_def)

lemma fair_value_nifty_missing: "calculateFairValue engine_missing now nifty_cash = Fin 100"
proof -
  have c: "cd_instrument_type nifty_cash = ''CASH''" "cd_symbol nifty_cash = ''NIFTY''"
    by (simp_all add: nifty_cash_def)
  show ?thesis
    unfolding calculateFairValue_def c quotes_engine_missing
    by (simp add: nifty_nse_def nifty_bse_def d_of_u64_def)
qed

lemma fair_value_bees_missing: "calculateFairValue engine_missing now bees_cash = Fin 0"
proof -
  have c: "cd_instrument_type bees_cash = ''CASH''" "cd_symbol bees_cash = ''NIFTYBEES''"
    by (simp_all add: bees_cash_def)
  show ?thesis
    unfolding calculateFairValue_def c
    by (simp add: getMarketData_absent quotes_engine_missing d_of_u64_def)
qed

lemma compare_nifty_missing:
  "pc_exchange (compareContract engine_missing now q nifty_cash) = ''NSE''"
  "pc_percentage_diff (compareContract engine_missing now q nifty_cash) = Fin (- 1 / 5)"
proof -
  show ex: "pc_exchange (compareContract engine_missing now q nifty_cash) = ''NSE''"
    unfolding compareContract_exchange symbols quotes_engine_missing fair_value_nifty_missing prices
    by (simp add: d_sub_def)
  show "pc_percentage_diff (compareContract engine_missing now q nifty_cash) = Fin (- 1 / 5)"
    unfolding compareContract_selected(1) ex symbols quotes_engine_missing fair_value_nifty_missing
    by (simp add: prices d_sub_def)
qed

lemma compare_bees_missing:
  "pc_exchange (compareContract engine_missing now q bees_cash) = ''BSE''"
  "pc_percentage_diff (compareContract engine_missing now q bees_cash) = NaN"
proof -
  show ex: "pc_exchange (compareContract engine_missing now q bees_cash) = ''BSE''"
    unfolding compareContract_exchange symbols fair_value_bees_missing
    by (simp add: getMarketData_absent quotes_engine_missing d_sub_def inf_of_sign_def)
  show "pc_percentage_diff (compareContract engine_missing now q bees_cash) = NaN"
    unfolding compareContract_selected(1) ex symbols fair_value_bees_missing
    by (simp add: getMarketData_absent quotes_engine_missing d_sub_def inf_of_sign_def)
qed

lemma compareContracts_engine_missing:
  "compareContracts engine_missing now ''NIFTY'' q =
     [compareContract engine_missing now q nifty_cash, compareContract engine_missing now q bees_cash]"
  by (simp add: compareContracts_def getContracts_engine_missing percentage_diff_less_def
      compare_nifty_missing compare_bees_missing)

lemma getContracts_engine_future:
  "getContracts engine_future ''BANKNIFTY'' = [banknifty_future]"
  by (simp add: getContracts_def engine_future_def addContract_def updateMarketData_def
      updateHistoricalVolume_def new_PricingEngine_def banknifty_future_def future_nse_def
      future_bse_def)

lemma quotes_engine_future:
  "getMarketData engine_future now ''BANKNIFTY24JANFUT'' ''NSE'' = future_nse"
  "getMarketData engine_future now ''BANKNIFTY24JANFUT'' ''BSE'' = future_bse"
  "md_price (getMarketData engine_future now ''BANKNIFTY'' ''NSE'') = Fin 0"
  by (simp_all add: getMarketData_def engine_future_def addContract_def updateMarketData_def
      updateHistoricalVolume_def new_PricingEngine_def future_nse_def future_bse_def)

lemma time_to_expiry_future: "getTimeToExpiry 0 (cd_expiry banknifty_future) = Fin (30 / 365)"
  by (simp add: getTimeToExpiry_def banknifty_future_def trunc_div_def ticks_per_hour_def
      d_max_def)

lemma fair_value_future: "calculateFairValue engine_future 0 banknifty_future = Fin 0"
proof -
  have c: "cd_instrument_type banknifty_future = ''FUTURE''"
    "cd_underlying banknifty_future = ''BANKNIFTY''"
    by (simp_all add: banknifty_future_def)
  have r: "risk_free_rate engine_future = Fin 0.06"
    by (simp add: engine_future_def addContract_def updateMarketData_def
        updateHistoricalVolume_def new_PricingEngine_def future_nse_def future_bse_def)
  show ?thesis
    unfolding calculateFairValue_def c time_to_expiry_future r
    by (simp add: quotes_engine_future)
qed

lemma exchange_future:
  "pc_exchange (compareContract engine_future 0 q banknifty_future) = ''BSE''"
proof -
  have c: "cd_symbol banknifty_future = ''BANKNIFTY24JANFUT''"
    by (simp add: banknifty_future_def)
  show ?thesis
    unfolding compareContract_exchange c quotes_engine_future fair_value_future
    by (simp add: future_nse_def future_bse_def d_sub_def inf_of_sign_def)
qed

subsection \<open>Ties go to BSE\<close>

text \<open>
  Claim C10. The result of \<open>compareContracts\<close> consists of the comparisons of the contracts
  of the underlying, and for each of these contracts: when the two quoted prices are at
  the same distance from the fair value, in particular when they are equal or when the
  symbol has no quote on either exchange, the exchange selected is BSE; NSE is selected
  exactly when its percentage difference is strictly less than the one of BSE, and BSE
  otherwise.
\<close>

theorem equidistant_selects_bse:
  "set (compareContracts eng now underlying q) =
     compareContract eng now q ` set (getContracts eng underlying)
   \<and> (\<forall>contract\<in>set (getContracts eng underlying).
        let nse_data = getMarketData eng now (cd_symbol contract) ''NSE'';
            bse_data = getMarketData eng now (cd_symbol contract) ''BSE'';
            fair_value = calculateFairValue eng now contract;
            nse_diff = d_mul (d_div (d_abs (d_sub (md_price nse_data) fair_value)) fair_value) (Fin 100);
            bse_diff = d_mul (d_div (d_abs (d_sub (md_price bse_data) fair_value)) fair_value) (Fin 100);
            comparison = compareContract eng now q contract
        in (d_abs (d_sub (md_price nse_data) fair_value) = d_abs (d_sub (md_price bse_data) fair_value)
              \<longrightarrow> pc_exchange comparison = ''BSE'')
         \<and> (md_price nse_data = md_price bse_data \<longrightarrow> pc_exchange comparison = ''BSE'')
         \<and> (nse_market_data eng (cd_symbol contract) = None
              \<and> bse_market_data eng (cd_symbol contract) = None
              \<longrightarrow> pc_exchange comparison = ''BSE'')
         \<and> (pc_exchange comparison = ''NSE'' \<longleftrightarrow> d_lt nse_diff bse_diff)
         \<and> (pc_exchange comparison \<noteq> ''NSE'' \<longrightarrow> pc_exchange comparison = ''BSE''))"
proof -
  have both: "pc_exchange (compareContract eng now q contract) = ''NSE''
      \<or> pc_exchange (compareContract eng now q contract) = ''BSE''" for contract
    by (simp add: compareContract_exchange)
  have nse_iff: "pc_exchange (compareContract eng now q contract) = ''NSE'' \<longleftrightarrow>
      d_lt (d_mul (d_div (d_abs (d_sub (md_price (getMarketData eng now (cd_symbol contract) ''NSE''))
                                       (calculateFairValue eng now contract)))
                         (calculateFairValue eng now contract)) (Fin 100))
           (d_mul (d_div (d_abs (d_sub (md_price (getMarketData eng now (cd_symbol contract) ''BSE''))
                                       (calculateFairValue eng now contract)))
                         (calculateFairValue eng now contract)) (Fin 100))" for contract
    by (simp add: compareContract_exchange)
  have equidistant: "pc_exchange (compareContract eng now q contract) = ''BSE''"
    if "d_abs (d_sub (md_price (getMarketData eng now (cd_symbol contract) ''NSE''))
                     (calculateFairValue eng now contract))
        = d_abs (d_sub (md_price (getMarketData eng now (cd_symbol contract) ''BSE''))
                       (calculateFairValue eng now contract))" for contract
    unfolding compareContract_exchange that by (simp add: d_lt_irrefl)
  have equal: "pc_exchange (compareContract eng now q contract) = ''BSE''"
    if "md_price (getMarketData eng now (cd_symbol contract) ''NSE'')
        = md_price (getMarketData eng now (cd_symbol contract) ''BSE'')" for contract
    using that by (intro equidistant) simp
  have absent: "pc_exchange (compareContract eng now q contract) = ''BSE''"
    if "nse_market_data eng (cd_symbol contract) = None"
      "bse_market_data eng (cd_symbol contract) = None" for contract
    using that by (intro equal) (simp add: getMarketData_absent)
  show ?thesis
    unfolding Let_def
    using both nse_iff equidistant equal absent set_compareContracts [of eng now underlying q]
    by blast
qed

theorem equidistant_selects_bse_witness:
  "bees_cash \<in> set (getContracts engine_quotes ''NIFTY'')
   \<and> md_price (getMarketData engine_quotes 0 (cd_symbol bees_cash) ''NSE'') = Fin 50
   \<and> md_price (getMarketData engine_quotes 0 (cd_symbol bees_cash) ''BSE'') = Fin 50
   \<and> pc_exchange (compareContract engine_quotes 0 (Fin 1) bees_cash) = ''BSE''
   \<and> bees_cash \<in> set (getContracts engine_missing ''NIFTY'')
   \<and> nse_market_data engine_missing (cd_symbol bees_cash) = None
   \<and> bse_market_data engine_missing (cd_symbol bees_cash) = None
   \<and> pc_exchange (compareContract engine_missing 0 (Fin 1) bees_cash) = ''BSE''"
proof -
  have m1: "bees_cash \<in> set (getContracts engine_quotes ''NIFTY'')"
    and m2: "bees_cash \<in> set (getContracts engine_missing ''NIFTY'')"
    by (simp_all add: getContracts_engine_quotes getContracts_engine_missing)
  have p: "md_price (getMarketData engine_quotes 0 (cd_symbol bees_cash) ''NSE'') = Fin 50"
    "md_price (getMarketData engine_quotes 0 (cd_symbol bees_cash) ''BSE'') = Fin 50"
    by (simp_all add: symbols quotes_engine_quotes prices)
  have a: "nse_market_data engine_missing (cd_symbol bees_cash) = None"
    "bse_market_data engine_missing (cd_symbol bees_cash) = None"
    by (simp_all add: symbols quotes_engine_missing)
  note t1 = equidistant_selects_bse [of engine_quotes 0 "''NIFTY''" "Fin 1", THEN conjunct2,
      THEN bspec, OF m1, unfolded Let_def]
  note t2 = equidistant_selects_bse [of engine_missing 0 "''NIFTY''" "Fin 1", THEN conjunct2,
      THEN bspec, OF m2, unfolded Let_def]
  have e1: "pc_exchange (compareContract engine_quotes 0 (Fin 1) bees_cash) = ''BSE''"
    using t1 [THEN conjunct2, THEN conjunct1] p by simp
  have e2: "pc_exchange (compareContract engine_missing 0 (Fin 1) bees_cash) = ''BSE''"
    using t2 [THEN conjunct2, THEN conjunct2, THEN conjunct1] a by simp
  show ?thesis
    using m1 m2 p a e1 e2 by simp
qed

subsection \<open>The closer venue\<close>

text \<open>
  Claim C2 says that in every pass the venue whose price is strictly closer to the fair
  value is selected. \<open>compareContracts\<close> divides by the fair value without a guard. For
  the future of \<open>engine_future\<close> the fair value is 0, since its underlying has no quote;
  the price on NSE, 48000, is closer to 0 than the price on BSE, 48100, both percentage
  differences are plus infinity, and the exchange selected is BSE.
\<close>

theorem closer_venue_zero_fair_value:
  "getContracts engine_future ''BANKNIFTY'' = [banknifty_future]
   \<and> map pc_fair_value (compareContracts engine_future 0 ''BANKNIFTY'' (Fin 1)) = [Fin 0]
   \<and> map pc_nse_price (compareContracts engine_future 0 ''BANKNIFTY'' (Fin 1)) = [Fin 48000]
   \<and> map pc_bse_price (compareContracts engine_future 0 ''BANKNIFTY'' (Fin 1)) = [Fin 48100]
   \<and> \<bar>48000 - 0\<bar> < \<bar>48100 - (0 :: real)\<bar>
   \<and> map pc_exchange (compareContracts engine_future 0 ''BANKNIFTY'' (Fin 1)) = [''BSE'']
   \<and> map pc_percentage_diff (compareContracts engine_future 0 ''BANKNIFTY'' (Fin 1)) = [PInf]"
proof -
  have c: "cd_symbol banknifty_future = ''BANKNIFTY24JANFUT''"
    by (simp add: banknifty_future_def)
  have out: "compareContracts engine_future 0 ''BANKNIFTY'' (Fin 1) =
      [compareContract engine_future 0 (Fin 1) banknifty_future]"
    by (simp add: compareContracts_def getContracts_engine_future)
  have pd: "pc_percentage_diff (compareContract engine_future 0 (Fin 1) banknifty_future) = PInf"
    unfolding compareContract_selected(1) exchange_future c quotes_engine_future
      fair_value_future
    by (simp add: future_bse_def d_sub_def inf_of_sign_def)
  show ?thesis
    unfolding out
    by (simp add: getContracts_engine_future compareContract_copied exchange_future c
        quotes_engine_future fair_value_future future_nse_def future_bse_def pd)
qed

subsection \<open>The order of the result\<close>

text \<open>
  Claim C3 says that the result is always sorted ascending by the absolute percentage
  difference. In \<open>engine_missing\<close> the second contract has no quotes, its fair value is 0
  and its percentage difference is \<open>0/0\<close>, NaN. The result has the two entries, and
  neither is the absolute percentage difference of the first less than or equal to the
  one of the second, nor the one of the second to the one of the first: the result is
  sorted in neither order of the two.
\<close>

theorem compareContracts_unsorted_NaN:
  "map pc_symbol (compareContracts engine_missing 0 ''NIFTY'' (Fin 1)) = [''NIFTY'', ''NIFTYBEES'']
   \<and> map pc_percentage_diff (compareContracts engine_missing 0 ''NIFTY'' (Fin 1))
       = [Fin (- 1 / 5), NaN]
   \<and> (0 :: nat) < 1 \<and> 1 < length (compareContracts engine_missing 0 ''NIFTY'' (Fin 1))
   \<and> \<not> d_le (d_abs (pc_percentage_diff (compareContracts engine_missing 0 ''NIFTY'' (Fin 1) ! 0)))
             (d_abs (pc_percentage_diff (compareContracts engine_missing 0 ''NIFTY'' (Fin 1) ! 1)))
   \<and> \<not> d_le (d_abs (pc_percentage_diff (compareContracts engine_missing 0 ''NIFTY'' (Fin 1) ! 1)))
             (d_abs (pc_percentage_diff (compareContracts engine_missing 0 ''NIFTY'' (Fin 1) ! 0)))"
  by (simp add: compareContracts_engine_missing compare_nifty_missing compare_bees_missing
      compareContract_copied symbols)

end
